theory Spec2Isabelle
  imports Complex_Main
begin

section \<open>Values shared by the capture path and the analysis path\<close>

text \<open>
  The exceptions the modelled code can raise. All of them are subclasses of Python's
  \<open>Exception\<close>, so an \<open>except Exception\<close> handler catches each one.
\<close>

datatype error =
    TypeError
  | IndexError
  | KeyError string
  | ValueError
  | OSError
  | JSONDecodeError

text \<open>
  JSON documents as Python's \<open>json\<close> module sees them: \<open>None\<close>, \<open>bool\<close>, \<open>int\<close>,
  \<open>float\<close>, \<open>str\<close>, \<open>list\<close> and \<open>dict\<close> with string keys (an association list in
  insertion order). Floats are idealised as exact rationals: the binary representation
  of a float is not modelled.
\<close>

datatype json =
    JNull
  | JBool bool
  | JInt int
  | JNum rat
  | JStr string
  | JList "json list"
  | JObj "(string \<times> json) list"

text \<open>
  One line of a JSONL stream. \<open>json.dumps\<close> and \<open>json.loads\<close> belong to the Python
  standard library, not to this repository: a line is represented by the document that
  \<open>json.loads(line.strip())\<close> yields for it, which for a line produced by
  \<open>json.dumps(d) + "\n"\<close> is \<open>d\<close> itself; a line that \<open>json.loads\<close> rejects (blank,
  truncated, not JSON) is \<open>Garbage\<close>.
\<close>

datatype line = Doc json | Garbage

definition json_dumps :: "json \<Rightarrow> line" where
  "json_dumps d = Doc d"

definition json_loads :: "line \<Rightarrow> error + json" where
  "json_loads l = (case l of Doc d \<Rightarrow> Inr d | Garbage \<Rightarrow> Inl JSONDecodeError)"

text \<open>Subscription \<open>record[key]\<close> with a string key, on whatever \<open>json.loads\<close> returned.\<close>

definition getitem :: "json \<Rightarrow> string \<Rightarrow> error + json" where
  "getitem d k =
     (case d of
        JObj kvs \<Rightarrow> (case map_of kvs k of None \<Rightarrow> Inl (KeyError k) | Some v \<Rightarrow> Inr v)
      | _ \<Rightarrow> Inl TypeError)"

subsection \<open>Decimal text of integers\<close>

definition digit_char :: "nat \<Rightarrow> char" where
  "digit_char d = ''0123456789'' ! d"

fun str_nat :: "nat \<Rightarrow> string" where
  "str_nat n = (if n < 10 then [digit_char n] else str_nat (n div 10) @ [digit_char (n mod 10)])"

declare str_nat.simps [simp del]

definition str_int :: "int \<Rightarrow> string" where
  "str_int i = (if i < 0 then CHR ''-'' # str_nat (nat (- i)) else str_nat (nat i))"

text \<open>
  Strings are lists of characters with code points below 256. \<open>is_space\<close> is Python's
  \<open>str.isspace\<close> on them: the ASCII whitespace, the four separators \<open>0x1C\<close> to \<open>0x1F\<close>,
  \<open>0x85\<close> and \<open>0xA0\<close>. \<open>strip\<close> is \<open>str.strip()\<close>.

  Python's \<open>int(s)\<close> on a string, base 10: surrounding whitespace is stripped, one sign
  is allowed, then digits, where single underscores may separate digits. Anything else
  raises \<open>ValueError\<close> (here \<open>None\<close>). Below 256 the decimal digits are the ASCII ones.
\<close>

definition is_space :: "char \<Rightarrow> bool" where
  "is_space c =
     (c \<in> set [CHR '' '', CHR 0x09, CHR 0x0A, CHR 0x0B, CHR 0x0C, CHR 0x0D,
                CHR 0x1C, CHR 0x1D, CHR 0x1E, CHR 0x1F, CHR 0x85, CHR 0xA0])"

definition strip :: "string \<Rightarrow> string" where
  "strip s = rev (dropWhile is_space (rev (dropWhile is_space s)))"

definition digit_of :: "char \<Rightarrow> nat option" where
  "digit_of c = map_of (zip ''0123456789'' [0, 1, 2, 3, 4, 5, 6, 7, 8, 9]) c"

fun digits_val :: "string \<Rightarrow> nat \<Rightarrow> nat option" where
  "digits_val [] acc = Some acc"
| "digits_val (c # cs) acc =
     (case digit_of c of
        Some d \<Rightarrow> digits_val cs (10 * acc + d)
      | None \<Rightarrow>
          (if c = CHR ''_'' then
             (case cs of
                [] \<Rightarrow> None
              | c' # _ \<Rightarrow> (if digit_of c' = None then None else digits_val cs acc))
           else None))"

definition unsigned_val :: "string \<Rightarrow> nat option" where
  "unsigned_val s =
     (case s of
        [] \<Rightarrow> None
      | c # _ \<Rightarrow> (if digit_of c = None then None else digits_val s 0))"

definition py_int :: "string \<Rightarrow> int option" where
  "py_int s =
     (case strip s of
        [] \<Rightarrow> None
      | c # cs \<Rightarrow>
          (if c = CHR ''-'' then map_option (\<lambda>n. - int n) (unsigned_val cs)
           else if c = CHR ''+'' then map_option int (unsigned_val cs)
           else map_option int (unsigned_val (c # cs))))"

subsection \<open>Rounding to six decimals\<close>

text \<open>
  Python's \<open>round(w, 6)\<close>: the nearest multiple of \<open>10^-6\<close>, a tie going to the even
  neighbour. On the idealised (rational) weights this is exact.
\<close>

definition round_half_even :: "rat \<Rightarrow> int" where
  "round_half_even x =
     (let f = \<lfloor>x\<rfloor>; d = x - of_int f
      in if d < 1 / 2 then f
         else if 1 / 2 < d then f + 1
         else if even f then f else f + 1)"

definition round6 :: "rat \<Rightarrow> rat" where
  "round6 w = of_int (round_half_even (w * 1000000)) / 1000000"

section \<open>The routing capture sink: \<open>MoELogger\<close>\<close>

subsection \<open>The output file\<close>

text \<open>
  The text file the logger writes. \<open>written\<close> is what \<open>write\<close> has accepted so far, in
  order. The device can fail: operation number \<open>n\<close> on the handle (a \<open>write\<close> or a
  \<open>flush\<close>) raises \<open>OSError\<close> exactly when \<open>faults n\<close> holds, so every pattern of I/O
  failure is an input of the model.
\<close>

record handle =
  written :: "line list"
  ops :: nat
  faults :: "nat \<Rightarrow> bool"

definition fh_write :: "handle \<Rightarrow> line \<Rightarrow> error option \<times> handle" where
  "fh_write f l =
     (if faults f (ops f) then (Some OSError, f\<lparr>ops := Suc (ops f)\<rparr>)
      else (None, f\<lparr>written := written f @ [l], ops := Suc (ops f)\<rparr>))"

definition fh_flush :: "handle \<Rightarrow> error option \<times> handle" where
  "fh_flush f =
     (if faults f (ops f) then (Some OSError, f\<lparr>ops := Suc (ops f)\<rparr>)
      else (None, f\<lparr>ops := Suc (ops f)\<rparr>))"

definition fh_close :: "handle \<Rightarrow> error option \<times> handle" where
  "fh_close f =
     (if faults f (ops f) then (Some OSError, f\<lparr>ops := Suc (ops f)\<rparr>)
      else (None, f\<lparr>ops := Suc (ops f)\<rparr>))"

subsection \<open>The logger object\<close>

text \<open>
  Messages sent to the module's diagnostic logger (\<open>logger.error\<close>, \<open>logger.warning\<close>,
  \<open>logger.info\<close>). An error message carries the exception it reports.
\<close>

datatype log_msg =
    LogError string error
  | LogWarning string
  | LogInfo string

text \<open>
  The fields of \<open>MoELogger\<close>, together with the diagnostic channel the object reports
  to (\<open>diagnostics\<close>, oldest message first).
\<close>

record moe_logger =
  enabled :: bool
  log_file :: "string option"
  file_handle :: "handle option"
  logged_layer :: int
  request_counter :: nat
  diagnostics :: "log_msg list"

text \<open>
  \<open>__init__\<close>. \<open>env\<close> is \<open>os.environ\<close>; \<open>opener path\<close> is what
  \<open>open(path, "w", encoding="utf-8")\<close> does: it raises or returns a handle.
\<close>

definition environ_get :: "(string \<rightharpoonup> string) \<Rightarrow> string \<Rightarrow> string \<Rightarrow> string" where
  "environ_get env k dflt = (case env k of None \<Rightarrow> dflt | Some v \<Rightarrow> v)"

definition new_logger :: moe_logger where
  "new_logger =
     \<lparr>enabled = False, log_file = None, file_handle = None, logged_layer = 0,
      request_counter = 0, diagnostics = []\<rparr>"

definition init :: "(string \<rightharpoonup> string) \<Rightarrow> (string \<Rightarrow> error + handle) \<Rightarrow> moe_logger" where
  "init env opener =
     (let s = new_logger;
          log_path = environ_get env ''VLLM_LOG_MOE'' ''''
      in if log_path \<noteq> [] then
           (let s1 = s\<lparr>log_file := Some log_path\<rparr>
            in case opener log_path of
                 Inl e \<Rightarrow>
                   s1\<lparr>enabled := False,
                      diagnostics := diagnostics s1 @ [LogError ''Failed to initialize MoE logger'' e]\<rparr>
               | Inr fh \<Rightarrow>
                   (let s2 = s1\<lparr>file_handle := Some fh, enabled := True\<rparr>;
                        layer_str = environ_get env ''VLLM_LOG_MOE_LAYER'' ''0'';
                        s3 = (case py_int layer_str of
                                Some n \<Rightarrow> s2\<lparr>logged_layer := n\<rparr>
                              | None \<Rightarrow>
                                  s2\<lparr>logged_layer := 0,
                                     diagnostics := diagnostics s2 @
                                       [LogWarning (''Invalid VLLM_LOG_MOE_LAYER value: '' @ layer_str @
                                                    ''. Using default layer 0.'')]\<rparr>)
                    in s3\<lparr>diagnostics := diagnostics s3 @
                            [LogInfo (''MoE logging enabled. Writing to '' @ log_path @
                                      '', logging layer '' @ str_int (logged_layer s3))]\<rparr>))
         else s)"

subsection \<open>\<open>write_meta_header\<close>\<close>

text \<open>
  The two version strings come from the imported \<open>torch\<close> and \<open>vllm\<close> modules; \<open>None\<close>
  stands for the lookup raising, which the code replaces by \<open>"unknown"\<close>.
\<close>

record runtime =
  torch_version :: "string option"
  vllm_version :: "string option"

definition version_or_unknown :: "string option \<Rightarrow> string" where
  "version_or_unknown v = (case v of None \<Rightarrow> ''unknown'' | Some x \<Rightarrow> x)"

definition json_opt_int :: "int option \<Rightarrow> json" where
  "json_opt_int x = (case x of None \<Rightarrow> JNull | Some i \<Rightarrow> JInt i)"

definition meta_record ::
    "runtime \<Rightarrow> int \<Rightarrow> string \<Rightarrow> int \<Rightarrow> int \<Rightarrow> string \<Rightarrow> int option \<Rightarrow> json" where
  "meta_record rt layer model_id top_k num_experts device seed =
     JObj [(''type'', JStr ''meta''),
           (''model_id'', JStr model_id),
           (''vllm_version'', JStr (version_or_unknown (vllm_version rt))),
           (''torch_version'', JStr (version_or_unknown (torch_version rt))),
           (''device'', JStr device),
           (''seed'', json_opt_int seed),
           (''layers_logged'', JList [JInt layer]),
           (''top_k'', JInt top_k),
           (''num_experts'', JInt num_experts)]"

text \<open>
  The first component of the result of \<open>write_meta_header\<close> and of \<open>log_routing\<close> is the
  exception that leaves the call (\<open>None\<close>: the call returns normally); the second is the
  logger afterwards.
\<close>

definition write_meta_header ::
    "runtime \<Rightarrow> string \<Rightarrow> int \<Rightarrow> int \<Rightarrow> string \<Rightarrow> int option \<Rightarrow> moe_logger \<Rightarrow>
     error option \<times> moe_logger" where
  "write_meta_header rt model_id top_k num_experts device seed s =
     (case file_handle s of
        None \<Rightarrow> (None, s)
      | Some fh \<Rightarrow>
          if \<not> enabled s then (None, s)
          else
            (let meta = meta_record rt (logged_layer s) model_id top_k num_experts device seed
             in case fh_write fh (json_dumps meta) of
                  (Some e, fh1) \<Rightarrow>
                    (None, s\<lparr>file_handle := Some fh1,
                             diagnostics := diagnostics s @ [LogError ''Failed to write MoE meta header'' e]\<rparr>)
                | (None, fh1) \<Rightarrow>
                    (case fh_flush fh1 of
                       (Some e, fh2) \<Rightarrow>
                         (None, s\<lparr>file_handle := Some fh2,
                                  diagnostics := diagnostics s @ [LogError ''Failed to write MoE meta header'' e]\<rparr>)
                     | (None, fh2) \<Rightarrow> (None, s\<lparr>file_handle := Some fh2\<rparr>))))"

subsection \<open>\<open>log_routing\<close>\<close>

text \<open>
  What \<open>tensor.detach().cpu().tolist()\<close> returns: a number for a 0-dimensional tensor,
  otherwise a list of such results. The documented batch shape \<open>[num_tokens, top_k]\<close>
  is a list of rows of numbers, but the code is handed whatever the caller passes.
\<close>

datatype 'a nested = Leaf 'a | Nest "'a nested list"

definition tensor2 :: "'a list list \<Rightarrow> 'a nested" where
  "tensor2 rows = Nest (map (\<lambda>r. Nest (map Leaf r)) rows)"

definition py_len :: "'a nested \<Rightarrow> error + nat" where
  "py_len t = (case t of Leaf _ \<Rightarrow> Inl TypeError | Nest xs \<Rightarrow> Inr (length xs))"

definition py_index :: "'a nested \<Rightarrow> nat \<Rightarrow> error + 'a nested" where
  "py_index t i =
     (case t of
        Leaf _ \<Rightarrow> Inl TypeError
      | Nest xs \<Rightarrow> (if i < length xs then Inr (xs ! i) else Inl IndexError))"

primrec ids_json :: "int nested \<Rightarrow> json" where
  "ids_json (Leaf i) = JInt i"
| "ids_json (Nest xs) = JList (map ids_json xs)"

text \<open>\<open>[round(w, 6) for w in row]\<close>: the row must be iterable and each element a number.\<close>

fun round_all :: "rat nested list \<Rightarrow> error + json list" where
  "round_all [] = Inr []"
| "round_all (Leaf w # ws) =
     (case round_all ws of Inl e \<Rightarrow> Inl e | Inr js \<Rightarrow> Inr (JNum (round6 w) # js))"
| "round_all (Nest _ # ws) = Inl TypeError"

definition round_row :: "rat nested \<Rightarrow> error + json" where
  "round_row row =
     (case row of
        Leaf _ \<Rightarrow> Inl TypeError
      | Nest ws \<Rightarrow> (case round_all ws of Inl e \<Rightarrow> Inl e | Inr js \<Rightarrow> Inr (JList js)))"

text \<open>The dictionary built for one token; its entries are evaluated in the order written.\<close>

definition route_record ::
    "string \<Rightarrow> nat \<Rightarrow> int \<Rightarrow> int nested \<Rightarrow> rat nested \<Rightarrow> error + json" where
  "route_record rid token_idx layer_idx ids_cpu weights_cpu =
     (case py_index ids_cpu token_idx of
        Inl e \<Rightarrow> Inl e
      | Inr ids_row \<Rightarrow>
          (case py_index weights_cpu token_idx of
             Inl e \<Rightarrow> Inl e
           | Inr w_row \<Rightarrow>
               (case round_row w_row of
                  Inl e \<Rightarrow> Inl e
                | Inr ws \<Rightarrow>
                    Inr (JObj [(''type'', JStr ''route''),
                               (''req_id'', JStr rid),
                               (''token_idx'', JInt (int token_idx)),
                               (''layer'', JInt layer_idx),
                               (''topk_ids'', ids_json ids_row),
                               (''topk_weights'', ws)]))))"

text \<open>
  The loop \<open>for token_idx in range(num_tokens)\<close>, over the list of indices still to do.
  An exception leaves the loop at once; what was written before stays written.
\<close>

fun write_records ::
    "nat list \<Rightarrow> string \<Rightarrow> int \<Rightarrow> int nested \<Rightarrow> rat nested \<Rightarrow> handle \<Rightarrow> error option \<times> handle" where
  "write_records [] rid layer_idx ids_cpu weights_cpu fh = (None, fh)"
| "write_records (i # rest) rid layer_idx ids_cpu weights_cpu fh =
     (case route_record rid i layer_idx ids_cpu weights_cpu of
        Inl e \<Rightarrow> (Some e, fh)
      | Inr r \<Rightarrow>
          (case fh_write fh (json_dumps r) of
             (Some e, fh1) \<Rightarrow> (Some e, fh1)
           | (None, fh1) \<Rightarrow> write_records rest rid layer_idx ids_cpu weights_cpu fh1))"

text \<open>\<open>req_id = f"r{self.request_counter}"; self.request_counter += 1\<close> when none is given.\<close>

definition mint_req_id :: "string option \<Rightarrow> moe_logger \<Rightarrow> string \<times> moe_logger" where
  "mint_req_id req_id s =
     (case req_id of
        None \<Rightarrow> (CHR ''r'' # str_nat (request_counter s), s\<lparr>request_counter := request_counter s + 1\<rparr>)
      | Some r \<Rightarrow> (r, s))"

text \<open>
  The body of the \<open>try\<close> block: the exception it raises, if any, and the logger as the
  body left it.
\<close>

definition log_routing_try ::
    "int \<Rightarrow> int nested \<Rightarrow> rat nested \<Rightarrow> string option \<Rightarrow> handle \<Rightarrow> moe_logger \<Rightarrow>
     error option \<times> moe_logger" where
  "log_routing_try layer_idx ids_cpu weights_cpu req_id fh s =
     (case mint_req_id req_id s of
        (rid, s1) \<Rightarrow>
          (case py_len ids_cpu of
             Inl e \<Rightarrow> (Some e, s1)
           | Inr num_tokens \<Rightarrow>
               (case write_records [0..<num_tokens] rid layer_idx ids_cpu weights_cpu fh of
                  (Some e, fh1) \<Rightarrow> (Some e, s1\<lparr>file_handle := Some fh1\<rparr>)
                | (None, fh1) \<Rightarrow>
                    (case fh_flush fh1 of
                       (r, fh2) \<Rightarrow> (r, s1\<lparr>file_handle := Some fh2\<rparr>)))))"

definition log_routing ::
    "int \<Rightarrow> int nested \<Rightarrow> rat nested \<Rightarrow> string option \<Rightarrow> moe_logger \<Rightarrow>
     error option \<times> moe_logger" where
  "log_routing layer_idx topk_ids_t topk_weights_t req_id s =
     (case file_handle s of
        None \<Rightarrow> (None, s)
      | Some fh \<Rightarrow>
          if \<not> enabled s then (None, s)
          else if layer_idx \<noteq> logged_layer s then (None, s)
          else
            (case log_routing_try layer_idx topk_ids_t topk_weights_t req_id fh s of
               (Some e, s1) \<Rightarrow>
                 (None, s1\<lparr>diagnostics := diagnostics s1 @ [LogError ''Failed to log MoE routing'' e]\<rparr>)
             | (None, s1) \<Rightarrow> (None, s1)))"

text \<open>\<open>close\<close>: the handle is dropped and the logger disabled also when closing fails.\<close>

definition close :: "moe_logger \<Rightarrow> error option \<times> moe_logger" where
  "close s =
     (case file_handle s of
        None \<Rightarrow> (None, s)
      | Some fh \<Rightarrow>
          (case fh_close fh of
             (Some e, _) \<Rightarrow>
               (None, s\<lparr>file_handle := None, enabled := False,
                        diagnostics := diagnostics s @ [LogError ''Failed to close MoE log file'' e]\<rparr>)
           | (None, _) \<Rightarrow> (None, s\<lparr>file_handle := None, enabled := False\<rparr>)))"

section \<open>The trace reader: \<open>read_moe_log\<close>\<close>

text \<open>
  The loop over the lines of the opened file, with the two local variables \<open>meta\<close> and
  \<open>routes\<close>. \<open>json.loads\<close> and \<open>record["type"]\<close> can raise; nothing catches that.
\<close>

fun read_lines :: "line list \<Rightarrow> json option \<Rightarrow> json list \<Rightarrow> error + (json option \<times> json list)" where
  "read_lines [] meta routes = Inr (meta, routes)"
| "read_lines (l # ls) meta routes =
     (case json_loads l of
        Inl e \<Rightarrow> Inl e
      | Inr record \<Rightarrow>
          (case getitem record ''type'' of
             Inl e \<Rightarrow> Inl e
           | Inr t \<Rightarrow>
               (if t = JStr ''meta'' then read_lines ls (Some record) routes
                else if t = JStr ''route'' then read_lines ls meta (routes @ [record])
                else read_lines ls meta routes)))"

definition read_moe_log :: "line list \<Rightarrow> error + (json option \<times> json list)" where
  "read_moe_log ls = read_lines ls None []"

section \<open>The analysis: \<open>analyze_expert_usage\<close> and \<open>calculate_metrics\<close>\<close>

text \<open>
  A route record as the analysis reads it: the fields of the trace format, with expert
  ids as Python integers.
\<close>

record route =
  req_id :: string
  token_idx :: int
  layer :: int
  topk_ids :: "int list"
  topk_weights :: "rat list"

text \<open>Python's \<open>max\<close> of a list; it is only called on a non-empty one.\<close>

definition py_max :: "int list \<Rightarrow> int" where
  "py_max xs = fold max (tl xs) (hd xs)"

text \<open>
  \<open>analyze_expert_usage\<close> returns the dense array \<open>expert_usage\<close> and the \<open>Counter\<close>
  \<open>expert_counts\<close>, here the function giving each id its number of occurrences.
\<close>

definition analyze_expert_usage :: "route list \<Rightarrow> nat list \<times> (int \<Rightarrow> nat)" where
  "analyze_expert_usage routes =
     (let all_expert_ids = concat (map topk_ids routes);
          expert_counts = count_list all_expert_ids;
          num_experts = (if all_expert_ids \<noteq> [] then py_max all_expert_ids + 1 else 0);
          expert_usage = map (\<lambda>i. expert_counts (int i)) [0..<nat num_experts]
      in (expert_usage, expert_counts))"

text \<open>
  \<open>np.argsort\<close> is NumPy's, not this repository's, and the code calls it with its default
  sort kind, which is not stable: NumPy promises the indices of the array in ascending
  order of the values and nothing about the order of equal values. The function is
  therefore a parameter \<open>argsort\<close> of the code that calls it, and \<open>is_argsort_of\<close> is
  what NumPy promises of its result: a permutation of the indices along which the
  values ascend.
\<close>

definition is_argsort_of :: "nat list \<Rightarrow> nat list \<Rightarrow> bool" where
  "is_argsort_of xs p \<longleftrightarrow> sort p = [0..<length xs] \<and> sorted (map (\<lambda>i. xs ! i) p)"

text \<open>\<open>np.argsort(expert_usage)[-3:][::-1]\<close>: the last three (or fewer) indices, reversed.\<close>

definition top_3_indices :: "(nat list \<Rightarrow> nat list) \<Rightarrow> nat list \<Rightarrow> nat list" where
  "top_3_indices argsort expert_usage =
     (let order = argsort expert_usage in rev (drop (length order - 3) order))"

text \<open>
  \<open>scipy.stats.entropy(pk, base)\<close>: \<open>pk\<close> is normalised to sum 1, then
  \<open>sum(-pk * ln pk) / ln base\<close>. Floats are idealised as reals.
\<close>

definition entropy :: "real list \<Rightarrow> real \<Rightarrow> real" where
  "entropy pk base =
     (let total = sum_list pk; qk = map (\<lambda>p. p / total) pk
      in (\<Sum>q\<leftarrow>qk. - (q * ln q)) / ln base)"

text \<open>The values stored in the metrics dictionary.\<close>

datatype metric =
    MInt int
  | MFloat real
  | MTop "(nat \<times> nat \<times> real) list"

definition calculate_metrics ::
    "(nat list \<Rightarrow> nat list) \<Rightarrow> nat list \<Rightarrow> (string \<times> metric) list \<times> real list" where
  "calculate_metrics argsort expert_usage =
     (let total_selections = sum_list expert_usage
      in if total_selections = 0 then ([], [])
         else
           (let prob_dist = map (\<lambda>c. real c / real total_selections) expert_usage;
                top_3_experts = map (\<lambda>idx. (idx, expert_usage ! idx, prob_dist ! idx))
                                    (top_3_indices argsort expert_usage);
                nonzero_probs = filter (\<lambda>p. 0 < p) prob_dist;
                shannon_entropy = entropy nonzero_probs 2;
                num_experts = length expert_usage;
                max_entropy = log 2 (real num_experts);
                normalized_entropy = (if 0 < max_entropy then shannon_entropy / max_entropy else 0)
            in ([(''top_3_experts'', MTop top_3_experts),
                 (''shannon_entropy_bits'', MFloat shannon_entropy),
                 (''max_entropy_bits'', MFloat max_entropy),
                 (''normalized_entropy'', MFloat normalized_entropy),
                 (''total_selections'', MInt (int total_selections)),
                 (''num_experts'', MInt (int num_experts))],
                prob_dist)))"

section \<open>Reference notions used to state the properties\<close>

text \<open>
  The record \<open>log_routing\<close> is expected to write for row \<open>i\<close> of a batch of the documented
  shape: \<open>ids\<close> and \<open>ws\<close> are that row of the two tensors.
\<close>

definition route_doc :: "string \<Rightarrow> nat \<Rightarrow> int \<Rightarrow> int list \<Rightarrow> rat list \<Rightarrow> json" where
  "route_doc rid i layer_idx ids ws =
     JObj [(''type'', JStr ''route''),
           (''req_id'', JStr rid),
           (''token_idx'', JInt (int i)),
           (''layer'', JInt layer_idx),
           (''topk_ids'', JList (map JInt ids)),
           (''topk_weights'', JList (map (\<lambda>w. JNum (round6 w)) ws))]"

text \<open>Sample handles and loggers: a device that never fails and one that always does.\<close>

definition sound_handle :: handle where
  "sound_handle = \<lparr>written = [], ops = 0, faults = (\<lambda>n. False)\<rparr>"

definition broken_handle :: handle where
  "broken_handle = \<lparr>written = [], ops = 0, faults = (\<lambda>n. True)\<rparr>"

definition logger_on :: "handle \<Rightarrow> moe_logger" where
  "logger_on fh =
     \<lparr>enabled = True, log_file = Some ''moe_routes.jsonl'', file_handle = Some fh,
      logged_layer = 0, request_counter = 0, diagnostics = []\<rparr>"

definition sample_runtime :: runtime where
  "sample_runtime = \<lparr>torch_version = Some ''2.1.0'', vllm_version = None\<rparr>"

definition sample_env :: "string \<rightharpoonup> string" where
  "sample_env = [''VLLM_LOG_MOE'' \<mapsto> ''moe_routes.jsonl'']"

definition sample_opener :: "string \<Rightarrow> error + handle" where
  "sample_opener path = Inr sound_handle"

text \<open>
  Notions for the reader. \<open>type_tag l\<close> is the value of \<open>record["type"]\<close> for a line that
  parses to an object having that key, and \<open>None\<close> for every other line. \<open>tagged_docs\<close>
  are the documents of the lines carrying a given tag, in file order; \<open>last_meta\<close> is
  the last one tagged \<open>"meta"\<close>; a line is \<open>ignored\<close> when it has a tag that is neither
  \<open>"meta"\<close> nor \<open>"route"\<close>.
\<close>

definition type_tag :: "line \<Rightarrow> json option" where
  "type_tag l = (case l of Doc (JObj kvs) \<Rightarrow> map_of kvs ''type'' | _ \<Rightarrow> None)"

definition tagged_docs :: "string \<Rightarrow> line list \<Rightarrow> json list" where
  "tagged_docs tag ls = [d. Doc d \<leftarrow> ls, type_tag (Doc d) = Some (JStr tag)]"

definition last_meta :: "line list \<Rightarrow> json option" where
  "last_meta ls = (case tagged_docs ''meta'' ls of [] \<Rightarrow> None | m # ms \<Rightarrow> Some (last (m # ms)))"

definition ignored :: "line \<Rightarrow> bool" where
  "ignored l = (case type_tag l of None \<Rightarrow> False | Some t \<Rightarrow> t \<noteq> JStr ''meta'' \<and> t \<noteq> JStr ''route'')"

definition sample_route :: json where
  "sample_route = route_doc ''r0'' 0 0 [2, 0] [7 / 10, 3 / 10]"

definition sample_meta :: json where
  "sample_meta = meta_record sample_runtime 0 ''m'' 2 4 ''cuda'' None"

definition other_doc :: json where
  "other_doc = JObj [(''type'', JStr ''note''), (''text'', JStr ''x'')]"

text \<open>A route record with the given expert ids, for the examples.\<close>

definition ids_route :: "int list \<Rightarrow> route" where
  "ids_route xs = \<lparr>req_id = ''r0'', token_idx = 0, layer = 0, topk_ids = xs, topk_weights = []\<rparr>"

text \<open>
  Two ways of ranking expert \<open>i\<close> before expert \<open>j\<close> in a histogram \<open>h\<close>: the count of \<open>i\<close>
  is not below that of \<open>j\<close> (\<open>count_not_below\<close>), or it is higher or else equal with
  \<open>i\<close> the lower id (\<open>lower_id_first\<close>).
\<close>

definition count_not_below :: "nat list \<Rightarrow> nat \<Rightarrow> nat \<Rightarrow> bool" where
  "count_not_below h i j \<longleftrightarrow> h ! j \<le> h ! i"

definition lower_id_first :: "nat list \<Rightarrow> nat \<Rightarrow> nat \<Rightarrow> bool" where
  "lower_id_first h i j \<longleftrightarrow> h ! j < h ! i \<or> (h ! j = h ! i \<and> i < j)"

text \<open>
  One sort that meets what NumPy promises: the index-stable one, which leaves equal
  values in index order. It stands for a possible \<open>np.argsort\<close> in the examples.
\<close>

definition stable_argsort :: "nat list \<Rightarrow> nat list" where
  "stable_argsort xs = map snd (sort_key fst (zip xs [0..<length xs]))"

text \<open>The expert ids listed under \<open>top_3_experts\<close> in a metrics dictionary, in rank order.\<close>

definition top_3_ids :: "(string \<times> metric) list \<Rightarrow> nat list" where
  "top_3_ids metrics =
     (case map_of metrics ''top_3_experts'' of Some (MTop es) \<Rightarrow> map fst es | _ \<Rightarrow> [])"

text \<open>A histogram of 24 experts whose counts alternate between 1 and 2.\<close>

definition alternating :: "nat list" where
  "alternating = concat (replicate 12 [1, 2])"

text \<open>
  A caller of the logger: the calls of \<open>log_routing\<close> an engine makes, one per batch, each
  with its layer index, the two tensors (given by their rows) and the optional request
  id. \<open>written_by\<close> is the content of the logger's file.
\<close>

type_synonym batch = "int \<times> int list list \<times> rat list list \<times> string option"

fun run_batches :: "batch list \<Rightarrow> moe_logger \<Rightarrow> moe_logger" where
  "run_batches [] s = s"
| "run_batches ((layer_idx, ids, ws, rid) # bs) s =
     run_batches bs (snd (log_routing layer_idx (tensor2 ids) (tensor2 ws) rid s))"

definition written_by :: "moe_logger \<Rightarrow> line list" where
  "written_by s = (case file_handle s of None \<Rightarrow> [] | Some fh \<Rightarrow> written fh)"

text \<open>
  Projections of the documents of a stream: a field of an object, the \<open>token_idx\<close> of a
  record, and the \<open>token_idx\<close> values of the records of one request, in file order.
\<close>

definition field :: "string \<Rightarrow> json \<Rightarrow> json option" where
  "field k d = (case d of JObj kvs \<Rightarrow> map_of kvs k | _ \<Rightarrow> None)"

definition token_idx_of :: "json \<Rightarrow> int option" where
  "token_idx_of d = (case field ''token_idx'' d of Some (JInt i) \<Rightarrow> Some i | _ \<Rightarrow> None)"

definition token_idxs :: "string \<Rightarrow> line list \<Rightarrow> int list" where
  "token_idxs rid ls =
     List.map_filter token_idx_of [d. Doc d \<leftarrow> ls, field ''req_id'' d = Some (JStr rid)]"

text \<open>
  The rows handed to \<open>log_routing\<close> at layer \<open>l\<close>, in call order, and the JSON lists a
  row of ids and a row of weights are written as.
\<close>

definition id_rows :: "int \<Rightarrow> batch list \<Rightarrow> int list list" where
  "id_rows l bs = concat (map (\<lambda>(layer_idx, ids, ws, rid). if layer_idx = l then ids else []) bs)"

definition weight_rows :: "int \<Rightarrow> batch list \<Rightarrow> rat list list" where
  "weight_rows l bs = concat (map (\<lambda>(layer_idx, ids, ws, rid). if layer_idx = l then ws else []) bs)"

definition ids_doc :: "int list \<Rightarrow> json" where
  "ids_doc row = JList (map JInt row)"

definition weights_doc :: "rat list \<Rightarrow> json" where
  "weights_doc row = JList (map (\<lambda>w. JNum (round6 w)) row)"

definition two_calls :: "batch list" where
  "two_calls = [(0, [[2, 0], [1, 3]], [[7 / 10, 3 / 10], [1 / 2, 1 / 2]], Some ''a''),
                (0, [[2, 1]], [[3 / 5, 2 / 5]], Some ''a'')]"

definition three_calls :: "batch list" where
  "three_calls = [(0, [[2, 0]], [[7 / 10, 3 / 10]], None),
                  (1, [[5, 5]], [[1 / 2, 1 / 2]], None),
                  (0, [[1, 3], [0, 2]], [[3 / 5, 2 / 5], [1 / 2, 1 / 2]], Some ''a'')]"

text \<open>
  The route records a sequence of calls is expected to leave on file, written out from the
  calls alone: \<open>l\<close> is the logged layer and \<open>c\<close> the request counter before the first call.
  A call at another layer leaves nothing; a call at the logged layer leaves one record
  per row, numbered from 0, under the request id supplied or else under \<open>r\<close> followed by
  the counter, which then goes up by one.
\<close>

definition batch_docs :: "string \<Rightarrow> int \<Rightarrow> int list list \<Rightarrow> rat list list \<Rightarrow> json list" where
  "batch_docs rid l ids ws = map (\<lambda>i. route_doc rid i l (ids ! i) (ws ! i)) [0..<length ids]"

fun expected_routes :: "int \<Rightarrow> nat \<Rightarrow> batch list \<Rightarrow> json list" where
  "expected_routes l c [] = []"
| "expected_routes l c ((layer_idx, ids, ws, rid) # bs) =
     (if layer_idx \<noteq> l then expected_routes l c bs
      else
        (case rid of
           Some r \<Rightarrow> batch_docs r l ids ws @ expected_routes l c bs
         | None \<Rightarrow> batch_docs (CHR ''r'' # str_nat c) l ids ws @ expected_routes l (Suc c) bs))"

section \<open>The capture path never raises\<close>

lemma round_all_leaves: "round_all (map Leaf ws) = Inr (map (\<lambda>w. JNum (round6 w)) ws)"
  by (induction ws) simp_all

lemma route_record_tensor2:
  assumes "i < length idrows" and "i < length wrows"
  shows "route_record rid i layer_idx (tensor2 idrows) (tensor2 wrows) =
         Inr (route_doc rid i layer_idx (idrows ! i) (wrows ! i))"
  using assms
  by (simp add: route_record_def tensor2_def py_index_def round_row_def round_all_leaves
      route_doc_def)

text \<open>On a device that does not fail, the loop writes one record per index, in order.\<close>

lemma write_records_ok:
  assumes "\<forall>n. \<not> faults fh n"
    and "\<forall>i\<in>set idxs. i < length idrows \<and> i < length wrows"
  shows "write_records idxs rid layer_idx (tensor2 idrows) (tensor2 wrows) fh =
         (None, fh\<lparr>written := written fh @
                      map (\<lambda>i. Doc (route_doc rid i layer_idx (idrows ! i) (wrows ! i))) idxs,
                    ops := ops fh + length idxs\<rparr>)"
  using assms
proof (induction idxs arbitrary: fh)
  case Nil
  then show ?case by simp
next
  case (Cons i idxs)
  let ?fh1 = "fh\<lparr>written := written fh @ [Doc (route_doc rid i layer_idx (idrows ! i) (wrows ! i))],
                 ops := Suc (ops fh)\<rparr>"
  have nf: "\<forall>n. \<not> faults ?fh1 n"
    using Cons.prems(1) by simp
  have rest: "\<forall>i\<in>set idxs. i < length idrows \<and> i < length wrows"
    using Cons.prems(2) by simp
  have rr: "route_record rid i layer_idx (tensor2 idrows) (tensor2 wrows) =
            Inr (route_doc rid i layer_idx (idrows ! i) (wrows ! i))"
    using Cons.prems(2) by (simp add: route_record_tensor2)
  have w: "fh_write fh (json_dumps (route_doc rid i layer_idx (idrows ! i) (wrows ! i))) = (None, ?fh1)"
    using Cons.prems(1) by (simp add: fh_write_def json_dumps_def)
  show ?case
    by (simp add: rr w Cons.IH [OF nf rest])
qed

text \<open>
  A whole call on an enabled logger, at the logged layer, with a batch of the documented
  shape and a device that does not fail.
\<close>

lemma log_routing_ok:
  assumes "enabled s" and "file_handle s = Some fh" and "\<forall>n. \<not> faults fh n"
    and "length idrows \<le> length wrows"
  shows "log_routing (logged_layer s) (tensor2 idrows) (tensor2 wrows) rid s =
         (None, (snd (mint_req_id rid s))\<lparr>file_handle := Some (fh\<lparr>written := written fh @
                      map (\<lambda>i. Doc (route_doc (fst (mint_req_id rid s)) i (logged_layer s)
                                      (idrows ! i) (wrows ! i)))
                        [0..<length idrows],
                    ops := Suc (ops fh + length idrows)\<rparr>)\<rparr>)"
proof -
  have len: "py_len (tensor2 idrows) = Inr (length idrows)"
    by (simp add: py_len_def tensor2_def)
  have wr: "write_records [0..<length idrows] rid' (logged_layer s) (tensor2 idrows) (tensor2 wrows) fh =
         (None, fh\<lparr>written := written fh @
                      map (\<lambda>i. Doc (route_doc rid' i (logged_layer s) (idrows ! i) (wrows ! i)))
                        [0..<length idrows],
                    ops := ops fh + length [0..<length idrows]\<rparr>)" for rid'
    using assms(3,4) by (intro write_records_ok) auto
  show ?thesis
    using assms(1,2,3)
    by (cases "mint_req_id rid s")
       (simp add: log_routing_def log_routing_try_def len wr fh_flush_def)
qed

text \<open>
  Errors do arise inside the two operations: a failing device makes \<open>write\<close> raise
  \<open>OSError\<close>, a tensor of the wrong rank makes the serialisation raise \<open>TypeError\<close>, and
  a weight tensor with too few rows raises \<open>IndexError\<close>. Each is reported and swallowed.
\<close>

lemma log_routing_reports_io_error:
  "log_routing 0 (tensor2 [[2, 0]]) (tensor2 [[7 / 10, 3 / 10]]) None (logger_on broken_handle) =
     (None, (logger_on broken_handle)
              \<lparr>request_counter := 1,
               file_handle := Some (broken_handle\<lparr>ops := 1\<rparr>),
               diagnostics := [LogError ''Failed to log MoE routing'' OSError]\<rparr>)"
  by (simp add: log_routing_def log_routing_try_def logger_on_def broken_handle_def
      mint_req_id_def py_len_def tensor2_def route_record_def py_index_def round_row_def
      fh_write_def json_dumps_def)

lemma log_routing_reports_type_error:
  "log_routing 0 (Leaf 2) (Leaf (7 / 10)) (Some ''a'') (logger_on sound_handle) =
     (None, (logger_on sound_handle)
              \<lparr>diagnostics := [LogError ''Failed to log MoE routing'' TypeError]\<rparr>)"
  by (simp add: log_routing_def log_routing_try_def logger_on_def sound_handle_def
      mint_req_id_def py_len_def)

lemma log_routing_reports_index_error:
  "log_routing 0 (tensor2 [[2, 0]]) (tensor2 []) (Some ''a'') (logger_on sound_handle) =
     (None, (logger_on sound_handle)
              \<lparr>diagnostics := [LogError ''Failed to log MoE routing'' IndexError]\<rparr>)"
  by (simp add: log_routing_def log_routing_try_def logger_on_def sound_handle_def
      mint_req_id_def py_len_def tensor2_def route_record_def py_index_def)

lemma write_meta_header_reports_io_error:
  "write_meta_header sample_runtime ''m'' 2 4 ''cuda'' None (logger_on broken_handle) =
     (None, (logger_on broken_handle)
              \<lparr>file_handle := Some (broken_handle\<lparr>ops := 1\<rparr>),
               diagnostics := [LogError ''Failed to write MoE meta header'' OSError]\<rparr>)"
  by (simp add: write_meta_header_def logger_on_def broken_handle_def fh_write_def)

text \<open>
  Claim C1. For every layer index, every pair of tensors, every optional request id and
  every logger state (in particular every enabled logger on a device with any pattern of
  failures), \<open>log_routing\<close> and \<open>write_meta_header\<close> return normally: no exception
  leaves either call, whatever was raised inside.
\<close>

theorem capture_never_raises:
  "fst (log_routing layer_idx ids_t weights_t rid s) = None \<and>
   fst (write_meta_header rt model_id top_k num_experts device seed s) = None"
  by (simp add: log_routing_def write_meta_header_def Let_def split: option.splits prod.splits)

theorem capture_never_raises_witness:
  "fst (log_routing 0 (tensor2 [[2, 0]]) (tensor2 [[7 / 10, 3 / 10]]) None
          (logger_on broken_handle)) = None \<and>
   fst (write_meta_header sample_runtime ''m'' 2 4 ''cuda'' None (logger_on broken_handle)) = None"
  using capture_never_raises [of 0 "tensor2 [[2, 0]]" "tensor2 [[7 / 10, 3 / 10]]" None
      "logger_on broken_handle" sample_runtime "''m''" 2 4 "''cuda''" None]
  by simp

section \<open>The disabled logger\<close>

lemma init_unconfigured:
  assumes "env ''VLLM_LOG_MOE'' = None \<or> env ''VLLM_LOG_MOE'' = Some ''''"
  shows "init env opener = new_logger"
  using assms by (auto simp add: init_def environ_get_def Let_def)

text \<open>
  Claim C2. When \<open>VLLM_LOG_MOE\<close> is absent or empty, the logger built by \<open>__init__\<close> is
  disabled and holds no file handle, and for every input \<open>log_routing\<close> and
  \<open>write_meta_header\<close> return normally and leave the whole state as it was: nothing is
  written to a file and nothing is sent to the diagnostic channel.
\<close>

theorem disabled_is_noop:
  assumes "env ''VLLM_LOG_MOE'' = None \<or> env ''VLLM_LOG_MOE'' = Some ''''"
  shows "\<not> enabled (init env opener) \<and>
         file_handle (init env opener) = None \<and>
         log_routing layer_idx ids_t weights_t rid (init env opener) = (None, init env opener) \<and>
         write_meta_header rt model_id top_k num_experts device seed (init env opener) =
           (None, init env opener)"
  using assms
  by (simp add: init_unconfigured [of env opener] new_logger_def log_routing_def write_meta_header_def)

theorem disabled_is_noop_witness:
  "(Map.empty ''VLLM_LOG_MOE'' = None \<or> Map.empty ''VLLM_LOG_MOE'' = Some '''') \<and>
   \<not> enabled (init Map.empty sample_opener) \<and>
   file_handle (init Map.empty sample_opener) = None \<and>
   log_routing 0 (tensor2 [[2, 0]]) (tensor2 [[7 / 10, 3 / 10]]) None (init Map.empty sample_opener) =
     (None, init Map.empty sample_opener) \<and>
   write_meta_header sample_runtime ''m'' 2 4 ''cuda'' None (init Map.empty sample_opener) =
     (None, init Map.empty sample_opener)"
  using disabled_is_noop [of Map.empty sample_opener 0 "tensor2 [[2, 0]]" "tensor2 [[7 / 10, 3 / 10]]"
      None sample_runtime "''m''" 2 4 "''cuda''" None]
  by simp

section \<open>The first batch on a fresh logger\<close>

lemma init_sample:
  "init sample_env sample_opener =
     \<lparr>enabled = True, log_file = Some ''moe_routes.jsonl'', file_handle = Some sound_handle,
      logged_layer = 0, request_counter = 0,
      diagnostics = [LogInfo ''MoE logging enabled. Writing to moe_routes.jsonl, logging layer 0'']\<rparr>"
  by (simp add: init_def sample_env_def sample_opener_def environ_get_def new_logger_def Let_def
      py_int_def strip_def is_space_def unsigned_val_def digit_of_def str_int_def str_nat.simps
      digit_char_def)

text \<open>
  Claim C5. On an enabled logger whose counter is 0 and whose device does not fail, the
  call at the logged layer with ids \<open>[[2, 0]]\<close>, weights \<open>[[0.7, 0.3]]\<close> and no request id
  returns normally, appends exactly one line, the route record with \<open>req_id = "r0"\<close>,
  \<open>token_idx = 0\<close>, \<open>topk_ids = [2, 0]\<close> and \<open>topk_weights = [0.7, 0.3]\<close>, and leaves the
  counter at 1.
\<close>

theorem scenario_first_batch:
  assumes "enabled s" and "file_handle s = Some fh" and "\<forall>n. \<not> faults fh n"
    and "request_counter s = 0"
  shows "log_routing (logged_layer s) (tensor2 [[2, 0]]) (tensor2 [[7 / 10, 3 / 10]]) None s =
           (None, s\<lparr>request_counter := 1,
                    file_handle := Some (fh\<lparr>written := written fh @
                       [Doc (JObj [(''type'', JStr ''route''),
                                   (''req_id'', JStr ''r0''),
                                   (''token_idx'', JInt 0),
                                   (''layer'', JInt (logged_layer s)),
                                   (''topk_ids'', JList [JInt 2, JInt 0]),
                                   (''topk_weights'', JList [JNum (7 / 10), JNum (3 / 10)])])],
                       ops := ops fh + 2\<rparr>)\<rparr>)"
proof -
  have r7: "round6 (7 / 10) = 7 / 10" and r3: "round6 (3 / 10) = 3 / 10"
    by (simp_all add: round6_def round_half_even_def Let_def)
  have m: "mint_req_id None s = (''r0'', s\<lparr>request_counter := 1\<rparr>)"
    using assms(4) by (simp add: mint_req_id_def str_nat.simps digit_char_def)
  show ?thesis
    using log_routing_ok [OF assms(1,2,3), of "[[2, 0]]" "[[7 / 10, 3 / 10]]" None]
    by (simp add: m route_doc_def r7 r3)
qed

theorem scenario_first_batch_witness:
  "enabled (init sample_env sample_opener) \<and>
   file_handle (init sample_env sample_opener) = Some sound_handle \<and>
   (\<forall>n. \<not> faults sound_handle n) \<and>
   request_counter (init sample_env sample_opener) = 0 \<and>
   map_option written (file_handle (snd (log_routing 0 (tensor2 [[2, 0]]) (tensor2 [[7 / 10, 3 / 10]]) None
       (init sample_env sample_opener)))) =
     Some [Doc (JObj [(''type'', JStr ''route''),
                                   (''req_id'', JStr ''r0''),
                                   (''token_idx'', JInt 0),
                                   (''layer'', JInt 0),
                                   (''topk_ids'', JList [JInt 2, JInt 0]),
                                   (''topk_weights'', JList [JNum (7 / 10), JNum (3 / 10)])])] \<and>
   request_counter (snd (log_routing 0 (tensor2 [[2, 0]]) (tensor2 [[7 / 10, 3 / 10]]) None
       (init sample_env sample_opener))) = 1"
proof -
  have e: "enabled (init sample_env sample_opener)"
    and f: "file_handle (init sample_env sample_opener) = Some sound_handle"
    and c: "request_counter (init sample_env sample_opener) = 0"
    and l: "logged_layer (init sample_env sample_opener) = 0"
    by (simp_all add: init_sample)
  have nf: "\<forall>n. \<not> faults sound_handle n"
    by (simp add: sound_handle_def)
  show ?thesis
    using scenario_first_batch [OF e f nf c] e f c nf
    by (simp add: l sound_handle_def)
qed

section \<open>What \<open>read_moe_log\<close> returns\<close>

lemma type_tag_None: "type_tag l = None \<Longrightarrow> \<exists>e. read_lines (l # ls) m rs = Inl e"
  by (auto simp add: type_tag_def json_loads_def getitem_def split: line.splits json.splits)

lemma type_tag_Some:
  "type_tag l = Some t \<Longrightarrow> \<exists>d. l = Doc d \<and> json_loads l = Inr d \<and> getitem d ''type'' = Inr t"
  by (auto simp add: type_tag_def json_loads_def getitem_def split: line.splits json.splits)

lemma read_lines_tagged:
  assumes "\<forall>l\<in>set ls. type_tag l \<noteq> None"
  shows "read_lines ls m rs =
         Inr (case tagged_docs ''meta'' ls of [] \<Rightarrow> m | x # xs \<Rightarrow> Some (last (x # xs)),
              rs @ tagged_docs ''route'' ls)"
  using assms
proof (induction ls arbitrary: m rs)
  case Nil
  then show ?case by (simp add: tagged_docs_def)
next
  case (Cons l ls)
  from Cons.prems obtain t where t: "type_tag l = Some t" by auto
  then obtain d where d: "l = Doc d" "json_loads l = Inr d" "getitem d ''type'' = Inr t"
    using type_tag_Some by blast
  have rest: "\<forall>l\<in>set ls. type_tag l \<noteq> None" using Cons.prems by simp
  have tm: "tagged_docs tag (l # ls) = (if t = JStr tag then d # tagged_docs tag ls else tagged_docs tag ls)" for tag
    using t d(1) by (simp add: tagged_docs_def)
  show ?case
    using d(2,3) by (simp add: Cons.IH [OF rest] tm split: list.splits)
qed

lemma read_lines_untagged:
  assumes "\<exists>l\<in>set ls. type_tag l = None"
  shows "\<exists>e. read_lines ls m rs = Inl e"
  using assms
proof (induction ls arbitrary: m rs)
  case Nil
  then show ?case by simp
next
  case (Cons l ls)
  show ?case
  proof (cases "type_tag l")
    case None
    then show ?thesis by (rule type_tag_None)
  next
    case (Some t)
    then obtain d where d: "l = Doc d" "json_loads l = Inr d" "getitem d ''type'' = Inr t"
      using type_tag_Some by blast
    from Cons.prems Some have "\<exists>l\<in>set ls. type_tag l = None" by auto
    from Cons.IH [OF this] show ?thesis
      using d(2,3) by simp
  qed
qed

lemma read_lines_stops:
  "type_tag l = None \<Longrightarrow> read_lines (l # ls) m rs = read_lines (l # ls') m' rs'"
  by (auto simp add: type_tag_def json_loads_def getitem_def split: line.splits json.splits)

lemma read_lines_filter:
  "read_lines (filter (\<lambda>l. \<not> ignored l) ls) m rs = read_lines ls m rs"
proof (induction ls arbitrary: m rs)
  case Nil
  then show ?case by simp
next
  case (Cons l ls)
  show ?case
  proof (cases "type_tag l")
    case None
    then have "\<not> ignored l" by (simp add: ignored_def)
    then show ?thesis
      using read_lines_stops [OF None] by simp
  next
    case (Some t)
    then obtain d where d: "l = Doc d" "json_loads l = Inr d" "getitem d ''type'' = Inr t"
      using type_tag_Some by blast
    have ig: "ignored l \<longleftrightarrow> t \<noteq> JStr ''meta'' \<and> t \<noteq> JStr ''route''"
      using Some by (simp add: ignored_def)
    show ?thesis
      using d(2,3) by (simp add: ig Cons.IH)
  qed
qed

text \<open>
  Claim C10. For every stream: if each line parses to an object with a \<open>type\<close> key,
  \<open>read_moe_log\<close> returns as routes exactly the lines tagged \<open>"route"\<close>, in file order,
  and as meta the last line tagged \<open>"meta"\<close> (\<open>None\<close> when there is none); otherwise it
  raises. Lines with any other tag are silently ignored: deleting them from the stream
  changes neither result.
\<close>

theorem read_moe_log_characterised:
  "(if \<forall>l\<in>set ls. type_tag l \<noteq> None
    then read_moe_log ls = Inr (last_meta ls, tagged_docs ''route'' ls)
    else \<exists>e. read_moe_log ls = Inl e) \<and>
   read_moe_log (filter (\<lambda>l. \<not> ignored l) ls) = read_moe_log ls"
proof -
  have "read_moe_log ls = Inr (last_meta ls, tagged_docs ''route'' ls)"
    if "\<forall>l\<in>set ls. type_tag l \<noteq> None"
    using read_lines_tagged [OF that, of None "[]"]
    by (simp add: read_moe_log_def last_meta_def)
  moreover have "\<exists>e. read_moe_log ls = Inl e" if "\<not> (\<forall>l\<in>set ls. type_tag l \<noteq> None)"
    using that read_lines_untagged [of ls None "[]"] by (simp add: read_moe_log_def)
  ultimately show ?thesis
    by (simp add: read_moe_log_def read_lines_filter)
qed

lemma sample_tags: "type_tag (Doc sample_route) = Some (JStr ''route'')"
  "type_tag (Doc sample_meta) = Some (JStr ''meta'')"
  "type_tag (Doc other_doc) = Some (JStr ''note'')"
  by (simp_all add: type_tag_def sample_route_def route_doc_def sample_meta_def meta_record_def other_doc_def)

theorem read_moe_log_characterised_witness:
  "list_all (\<lambda>l. type_tag l \<noteq> None)
     [Doc sample_route, Doc other_doc, Doc sample_meta, Doc sample_route] \<and>
   read_moe_log [Doc sample_route, Doc other_doc, Doc sample_meta, Doc sample_route] =
     Inr (Some sample_meta, [sample_route, sample_route]) \<and>
   read_moe_log [Doc sample_route, Doc sample_meta, Doc sample_route] =
     read_moe_log [Doc sample_route, Doc other_doc, Doc sample_meta, Doc sample_route] \<and>
   \<not> list_all (\<lambda>l. type_tag l \<noteq> None) [Doc sample_route, Garbage] \<and>
   (\<exists>e. read_moe_log [Doc sample_route, Garbage] = Inl e)"
  using read_moe_log_characterised [of "[Doc sample_route, Doc other_doc, Doc sample_meta, Doc sample_route]"]
    read_moe_log_characterised [of "[Doc sample_route, Garbage]"]
  by (simp add: sample_tags last_meta_def tagged_docs_def ignored_def) (simp add: type_tag_def)

text \<open>
  Claim C8 as stated, that a stream without a meta record makes the reader fail, does not hold: a
  stream made of one route record is read without error, the meta being \<open>None\<close>.
\<close>

theorem read_moe_log_no_meta_counterexample:
  "tagged_docs ''meta'' [Doc sample_route] = [] \<and>
   read_moe_log [Doc sample_route] = Inr (None, [sample_route])"
  by (simp add: read_moe_log_def json_loads_def getitem_def sample_route_def route_doc_def
      tagged_docs_def type_tag_def)

text \<open>
  Claim C8, amended. \<open>read_moe_log\<close> has no missing-header failure: on a stream whose
  lines all parse to objects with a \<open>type\<close> key it returns normally, the meta being
  \<open>None\<close> exactly when no line is tagged \<open>"meta"\<close>. The meta record need not be first:
  when the stream holds a single one, wherever it stands, that record is returned,
  together with the route records in file order.
\<close>

theorem read_moe_log_meta_optional:
  assumes "\<forall>l\<in>set ls. type_tag l \<noteq> None"
  shows "\<exists>m. read_moe_log ls = Inr (m, tagged_docs ''route'' ls) \<and>
             (m = None \<longleftrightarrow> tagged_docs ''meta'' ls = []) \<and>
             (\<forall>d. tagged_docs ''meta'' ls = [d] \<longrightarrow> m = Some d)"
  using read_lines_tagged [OF assms, of None "[]"]
  by (auto simp add: read_moe_log_def split: list.splits)

theorem read_moe_log_meta_optional_witness:
  "list_all (\<lambda>l. type_tag l \<noteq> None) [Doc sample_route, Doc sample_meta] \<and>
   list_all (\<lambda>l. type_tag l \<noteq> None) [Doc sample_route] \<and>
   read_moe_log [Doc sample_route, Doc sample_meta] = Inr (Some sample_meta, [sample_route]) \<and>
   read_moe_log [Doc sample_route] = Inr (None, [sample_route])"
proof -
  have a: "\<forall>l\<in>set [Doc sample_route, Doc sample_meta]. type_tag l \<noteq> None"
    and b: "\<forall>l\<in>set [Doc sample_route]. type_tag l \<noteq> None"
    by (simp_all add: sample_tags)
  show ?thesis
    using read_moe_log_meta_optional [OF a] read_moe_log_meta_optional [OF b] a b
    by (simp add: tagged_docs_def sample_tags)
qed

section \<open>The histogram\<close>

lemma py_max_Max:
  assumes "xs \<noteq> []"
  shows "py_max xs = Max (set xs)"
proof (cases xs)
  case Nil
  with assms show ?thesis by simp
next
  case (Cons a list)
  have "py_max (a # list) = fold max list a"
    by (simp add: py_max_def)
  also have "\<dots> = Max (set (a # list))"
    by (rule Max.set_eq_fold [symmetric])
  finally show ?thesis
    using Cons by simp
qed

lemma expert_usage_nth:
  "i < length (fst (analyze_expert_usage routes)) \<Longrightarrow>
   fst (analyze_expert_usage routes) ! i = count_list (concat (map topk_ids routes)) (int i)"
  by (simp add: analyze_expert_usage_def Let_def)

lemma expert_usage_length:
  assumes "concat (map topk_ids routes) \<noteq> []"
  shows "length (fst (analyze_expert_usage routes)) =
         nat (Max (set (concat (map topk_ids routes))) + 1)"
proof -
  have "py_max (concat (map topk_ids routes)) = Max (set (concat (map topk_ids routes)))"
    using assms by (rule py_max_Max)
  then show ?thesis
    using assms by (simp add: analyze_expert_usage_def Let_def)
qed

text \<open>
  Claim C4. For routes whose expert ids are non-negative, the array returned by
  \<open>analyze_expert_usage\<close> has length \<open>max(observed id) + 1\<close> when an id was observed, its
  entry \<open>i\<close> is the number of occurrences of id \<open>i\<close> in all the \<open>topk_ids\<close> lists, and the
  returned counter gives every id its number of occurrences. No routes give the empty
  array, and the routes with ids \<open>[[0, 1], [1, 2], [0, 0]]\<close> give \<open>[3, 2, 1]\<close>.
\<close>

theorem histogram_dense:
  assumes "\<forall>r\<in>set routes. \<forall>i\<in>set (topk_ids r). 0 \<le> i"
  shows "(concat (map topk_ids routes) \<noteq> [] \<longrightarrow>
            int (length (fst (analyze_expert_usage routes))) =
              Max (set (concat (map topk_ids routes))) + 1) \<and>
         (\<forall>i<length (fst (analyze_expert_usage routes)).
            fst (analyze_expert_usage routes) ! i = count_list (concat (map topk_ids routes)) (int i)) \<and>
         (\<forall>i. snd (analyze_expert_usage routes) i = count_list (concat (map topk_ids routes)) i) \<and>
         fst (analyze_expert_usage []) = [] \<and>
         fst (analyze_expert_usage [ids_route [0, 1], ids_route [1, 2], ids_route [0, 0]]) = [3, 2, 1]"
proof -
  have len: "int (length (fst (analyze_expert_usage routes))) =
              Max (set (concat (map topk_ids routes))) + 1"
    if ne: "concat (map topk_ids routes) \<noteq> []"
  proof -
    from ne obtain x where x: "x \<in> set (concat (map topk_ids routes))"
      by (cases "concat (map topk_ids routes)") auto
    have "0 \<le> x" using x assms by auto
    moreover have "x \<le> Max (set (concat (map topk_ids routes)))"
      using x by (intro Max_ge) auto
    ultimately have "0 \<le> Max (set (concat (map topk_ids routes))) + 1" by linarith
    then show ?thesis
      unfolding expert_usage_length [OF ne] by (rule nat_0_le)
  qed
  have ex: "fst (analyze_expert_usage [ids_route [0, 1], ids_route [1, 2], ids_route [0, 0]]) = [3, 2, 1]"
    by code_simp
  have emp: "fst (analyze_expert_usage []) = []"
    by (simp add: analyze_expert_usage_def)
  have cnt: "\<forall>i. snd (analyze_expert_usage routes) i = count_list (concat (map topk_ids routes)) i"
    by (simp add: analyze_expert_usage_def Let_def)
  show ?thesis
    using len ex emp cnt by (simp add: expert_usage_nth)
qed

theorem histogram_dense_witness:
  "list_all (\<lambda>r. list_all (\<lambda>i. 0 \<le> i) (topk_ids r)) [ids_route [0, 3], ids_route [3]] \<and>
   fst (analyze_expert_usage [ids_route [0, 3], ids_route [3]]) = [1, 0, 0, 2] \<and>
   int (length (fst (analyze_expert_usage [ids_route [0, 3], ids_route [3]]))) = 3 + 1"
proof -
  have h: "\<forall>r\<in>set [ids_route [0, 3], ids_route [3]]. \<forall>i\<in>set (topk_ids r). 0 \<le> i"
    by (simp add: ids_route_def)
  have v: "fst (analyze_expert_usage [ids_route [0, 3], ids_route [3]]) = [1, 0, 0, 2]"
    by code_simp
  show ?thesis
    using histogram_dense [OF h] h v by (simp add: ids_route_def list_all_iff)
qed

section \<open>Metrics without data\<close>

lemma calculate_metrics_zero:
  "sum_list expert_usage = 0 \<Longrightarrow> calculate_metrics argsort expert_usage = ([], [])"
  by (simp add: calculate_metrics_def)

text \<open>
  Claim C6 as stated, that the no-data result reports \<open>total_selections = 0\<close> and a
  normalized entropy of 0, does not hold: for no routes the metrics dictionary is empty and has
  neither key.
\<close>

theorem no_data_metrics_counterexample:
  "fst (calculate_metrics stable_argsort (fst (analyze_expert_usage []))) = [] \<and>
   map_of (fst (calculate_metrics stable_argsort (fst (analyze_expert_usage []))))
     ''total_selections'' = None \<and>
   map_of (fst (calculate_metrics stable_argsort (fst (analyze_expert_usage []))))
     ''normalized_entropy'' = None"
  by (simp add: calculate_metrics_def analyze_expert_usage_def)

text \<open>
  Claim C6, amended. When the total of the histogram is zero, \<open>calculate_metrics\<close> does
  not raise and returns the explicit no-data result: an empty metrics dictionary (no key
  at all) and an empty probability array.
\<close>

theorem no_data_metrics_empty:
  assumes "sum_list expert_usage = 0"
  shows "calculate_metrics argsort expert_usage = ([], []) \<and>
         (\<forall>k. map_of (fst (calculate_metrics argsort expert_usage)) k = None)"
  using assms by (simp add: calculate_metrics_def)

theorem no_data_metrics_empty_witness:
  "sum_list [0, 0 :: nat] = 0 \<and> calculate_metrics stable_argsort [0, 0] = ([], []) \<and>
   sum_list (fst (analyze_expert_usage [])) = 0 \<and>
   calculate_metrics stable_argsort (fst (analyze_expert_usage [])) = ([], [])"
proof -
  have a: "sum_list [0, 0 :: nat] = 0" by simp
  have b: "sum_list (fst (analyze_expert_usage [])) = 0" by (simp add: analyze_expert_usage_def)
  show ?thesis
    using no_data_metrics_empty [OF a, of stable_argsort]
      no_data_metrics_empty [OF b, of stable_argsort] a b by simp
qed

section \<open>The top three experts\<close>

text \<open>What follows from NumPy's promise about the result of \<open>np.argsort\<close>.\<close>

lemma argsort_set:
  assumes "is_argsort_of xs p"
  shows "set p = {..<length xs}"
proof -
  have "set p = set (sort p)" by simp
  also have "\<dots> = set [0..<length xs]"
    using assms by (simp only: is_argsort_of_def)
  finally show ?thesis by auto
qed

lemma argsort_distinct:
  assumes "is_argsort_of xs p"
  shows "distinct p"
proof -
  have "distinct (sort p)"
    using assms by (simp only: is_argsort_of_def distinct_upt)
  then show ?thesis by simp
qed

lemma argsort_length:
  assumes "is_argsort_of xs p"
  shows "length p = length xs"
proof -
  have "length p = length (sort p)" by simp
  also have "\<dots> = length [0..<length xs]"
    using assms by (simp only: is_argsort_of_def)
  finally show ?thesis by simp
qed

lemma argsort_ascending:
  assumes "is_argsort_of xs p"
  shows "sorted_wrt (\<lambda>i j. xs ! i \<le> xs ! j) p"
  using assms by (simp add: is_argsort_of_def sorted_wrt_map)

lemma length_top_3:
  "is_argsort_of h (argsort h) \<Longrightarrow> length (top_3_indices argsort h) = min 3 (length h)"
  by (simp add: top_3_indices_def Let_def argsort_length)

lemma set_top_3:
  assumes "is_argsort_of h (argsort h)"
  shows "set (top_3_indices argsort h) \<subseteq> {..<length h}"
  using set_drop_subset [of "length (argsort h) - 3" "argsort h"] argsort_set [OF assms]
  by (simp add: top_3_indices_def Let_def)

lemma distinct_top_3:
  "is_argsort_of h (argsort h) \<Longrightarrow> distinct (top_3_indices argsort h)"
  by (simp add: top_3_indices_def Let_def argsort_distinct)

lemma sorted_top_3:
  assumes "is_argsort_of h (argsort h)"
  shows "sorted_wrt (count_not_below h) (top_3_indices argsort h)"
proof -
  have "sorted_wrt (\<lambda>i j. h ! i \<le> h ! j) (drop (length (argsort h) - 3) (argsort h))"
    using argsort_ascending [OF assms] by (rule sorted_wrt_drop)
  then have "sorted_wrt (\<lambda>i j. count_not_below h j i) (drop (length (argsort h) - 3) (argsort h))"
    by (simp add: count_not_below_def)
  then show ?thesis
    by (simp add: top_3_indices_def Let_def sorted_wrt_rev)
qed

lemma top_3_dominates:
  assumes "is_argsort_of h (argsort h)"
    and "k < length h" and "k \<notin> set (top_3_indices argsort h)"
    and "i \<in> set (top_3_indices argsort h)"
  shows "count_not_below h i k"
proof -
  let ?n = "length (argsort h) - 3"
  have "sorted_wrt (\<lambda>i j. h ! i \<le> h ! j) (take ?n (argsort h) @ drop ?n (argsort h))"
    using argsort_ascending [OF assms(1)] by simp
  then have all: "\<forall>x\<in>set (take ?n (argsort h)). \<forall>y\<in>set (drop ?n (argsort h)). h ! x \<le> h ! y"
    unfolding sorted_wrt_append by blast
  have "set (argsort h) = set (take ?n (argsort h)) \<union> set (drop ?n (argsort h))"
    by (metis append_take_drop_id set_append)
  moreover have "k \<in> set (argsort h)"
    using assms(2) by (simp add: argsort_set [OF assms(1)])
  ultimately have "k \<in> set (take ?n (argsort h)) \<union> set (drop ?n (argsort h))"
    by blast
  then have "k \<in> set (take ?n (argsort h))"
    using assms(3) by (auto simp add: top_3_indices_def Let_def)
  moreover have "i \<in> set (drop ?n (argsort h))"
    using assms(4) by (simp add: top_3_indices_def Let_def)
  ultimately show ?thesis
    using all by (simp add: count_not_below_def)
qed

lemma top_3_metric:
  assumes "is_argsort_of h (argsort h)" and "0 < sum_list h"
  shows "map_of (fst (calculate_metrics argsort h)) ''top_3_experts'' =
         Some (MTop (map (\<lambda>i. (i, h ! i, real (h ! i) / real (sum_list h)))
                         (top_3_indices argsort h)))"
proof -
  have "map (\<lambda>idx. (idx, h ! idx, map (\<lambda>c. real c / real (sum_list h)) h ! idx))
            (top_3_indices argsort h) =
        map (\<lambda>i. (i, h ! i, real (h ! i) / real (sum_list h))) (top_3_indices argsort h)"
    using set_top_3 [where h = h and argsort = argsort, OF assms(1)] by (intro map_cong refl) auto
  moreover have "sum_list h \<noteq> 0"
    using assms(2) by (simp del: sum_list_eq_0_iff)
  ultimately show ?thesis
    by (simp add: calculate_metrics_def Let_def del: sum_list_eq_0_iff)
qed

lemma top_3_ids_metric:
  assumes "is_argsort_of h (argsort h)" and "0 < sum_list h"
  shows "top_3_ids (fst (calculate_metrics argsort h)) = top_3_indices argsort h"
  by (simp add: top_3_ids_def top_3_metric [where h = h and argsort = argsort, OF assms] comp_def)

lemma top_3_example:
  assumes "is_argsort_of [5, 5, 3] (argsort [5, 5, 3])"
  shows "top_3_indices argsort [5, 5, 3] = [0, 1, 2] \<or> top_3_indices argsort [5, 5, 3] = [1, 0, 2]"
proof -
  let ?t = "top_3_indices argsort [5, 5, 3]"
  have "length ?t = 3"
    using length_top_3 [where h = "[5, 5, 3]" and argsort = argsort, OF assms] by simp
  then obtain a b c where t: "?t = [a, b, c]"
    by (auto simp add: length_Suc_conv numeral_3_eq_3)
  have d: "a \<noteq> b" "a \<noteq> c" "b \<noteq> c"
    using distinct_top_3 [where h = "[5, 5, 3]" and argsort = argsort, OF assms] by (simp_all add: t)
  have r: "a < 3" "b < 3" "c < 3"
    using set_top_3 [where h = "[5, 5, 3]" and argsort = argsort, OF assms] by (simp_all add: t)
  have s: "[5, 5, 3 :: nat] ! b \<le> [5, 5, 3] ! a" "[5, 5, 3 :: nat] ! c \<le> [5, 5, 3] ! a"
    "[5, 5, 3 :: nat] ! c \<le> [5, 5, 3] ! b"
    using sorted_top_3 [where h = "[5, 5, 3]" and argsort = argsort, OF assms] by (simp_all add: t count_not_below_def)
  have cases: "x = 0 \<or> x = 1 \<or> x = 2" if "x < 3" for x :: nat
    using that by arith
  show ?thesis
    using d s cases [OF r(1)] cases [OF r(2)] cases [OF r(3)] by (auto simp add: t)
qed

text \<open>The index-stable sort meets the promise.\<close>

lemma in_zip_upt:
  "p \<in> set (zip xs [0..<length xs]) \<longleftrightarrow> snd p < length xs \<and> fst p = xs ! snd p"
  by (cases p) (auto simp add: in_set_zip)

lemma stable_argsort_ok: "is_argsort_of xs (stable_argsort xs)"
proof -
  let ?ps = "sort_key fst (zip xs [0..<length xs])"
  have m: "map snd (zip xs [0..<length xs]) = [0..<length xs]"
    by simp
  have "set (stable_argsort xs) = snd ` set (zip xs [0..<length xs])"
    by (simp add: stable_argsort_def)
  also have "\<dots> = set (map snd (zip xs [0..<length xs]))"
    by (simp only: set_map)
  finally have st: "set (stable_argsort xs) = set [0..<length xs]"
    unfolding m .
  have "distinct (zip xs [0..<length xs])"
    by (rule distinct_zipI2) simp
  moreover have "inj_on snd (set (zip xs [0..<length xs]))"
    by (rule inj_onI) (auto simp add: in_zip_upt prod_eq_iff)
  ultimately have di: "distinct (stable_argsort xs)"
    by (simp add: stable_argsort_def distinct_map)
  have "sort (stable_argsort xs) = [0..<length xs]"
  proof (rule sorted_distinct_set_unique)
    show "set (sort (stable_argsort xs)) = set [0..<length xs]"
      using st by simp
  qed (simp_all add: di)
  moreover have "sorted (map (\<lambda>i. xs ! i) (stable_argsort xs))"
  proof -
    have "map (\<lambda>i. xs ! i) (stable_argsort xs) = map (\<lambda>p. xs ! snd p) ?ps"
      by (simp add: stable_argsort_def comp_def)
    also have "\<dots> = map fst ?ps"
      by (rule map_cong) (auto simp add: in_zip_upt)
    finally show ?thesis
      by (simp add: sorted_sort_key)
  qed
  ultimately show ?thesis
    by (simp add: is_argsort_of_def)
qed

text \<open>
  Claim C7, amended. Whatever \<open>np.argsort\<close> does with equal values, as long as it returns
  the indices in ascending order of the counts: for every histogram with a non-zero
  total, the \<open>top_3_experts\<close> entry lists \<open>min 3 (length h)\<close> distinct experts with their
  counts and probabilities, ranked by descending count (no listed count is below a later
  one, nor below the count of an expert left out). The order among equal counts is not
  fixed. For counts \<open>[5, 5, 3]\<close> the ranking is experts 0 and 1, in either order, and then
  expert 2.
\<close>

theorem top_3_ranking:
  assumes "is_argsort_of h (argsort h)" and "0 < sum_list h"
  shows "map_of (fst (calculate_metrics argsort h)) ''top_3_experts'' =
           Some (MTop (map (\<lambda>i. (i, h ! i, real (h ! i) / real (sum_list h)))
                           (top_3_indices argsort h))) \<and>
         length (top_3_indices argsort h) = min 3 (length h) \<and>
         distinct (top_3_indices argsort h) \<and>
         set (top_3_indices argsort h) \<subseteq> {..<length h} \<and>
         sorted_wrt (count_not_below h) (top_3_indices argsort h) \<and>
         (\<forall>k<length h. k \<notin> set (top_3_indices argsort h) \<longrightarrow>
            (\<forall>i\<in>set (top_3_indices argsort h). count_not_below h i k)) \<and>
         (h = [5, 5, 3] \<longrightarrow>
            top_3_indices argsort h = [0, 1, 2] \<or> top_3_indices argsort h = [1, 0, 2])"
proof -
  have ex: "top_3_indices argsort h = [0, 1, 2] \<or> top_3_indices argsort h = [1, 0, 2]"
    if "h = [5, 5, 3]"
    using top_3_example [of argsort] assms(1) that by simp
  show ?thesis
    using top_3_metric [where h = h and argsort = argsort, OF assms]
      length_top_3 [where h = h and argsort = argsort, OF assms(1)]
      distinct_top_3 [where h = h and argsort = argsort, OF assms(1)]
      set_top_3 [where h = h and argsort = argsort, OF assms(1)]
      sorted_top_3 [where h = h and argsort = argsort, OF assms(1)]
      top_3_dominates [where h = h and argsort = argsort, OF assms(1)] ex
    by blast
qed

theorem top_3_ranking_witness:
  "is_argsort_of [5, 5, 3] (stable_argsort [5, 5, 3]) \<and>
   0 < sum_list [5, 5, 3 :: nat] \<and>
   top_3_ids (fst (calculate_metrics stable_argsort [5, 5, 3])) =
     top_3_indices stable_argsort [5, 5, 3] \<and>
   length (top_3_indices stable_argsort [5, 5, 3]) = 3 \<and>
   sorted_wrt (count_not_below [5, 5, 3]) (top_3_indices stable_argsort [5, 5, 3]) \<and>
   (top_3_indices stable_argsort [5, 5, 3] = [0, 1, 2] \<or>
    top_3_indices stable_argsort [5, 5, 3] = [1, 0, 2])"
proof -
  have a: "is_argsort_of [5, 5, 3] (stable_argsort [5, 5, 3])"
    by (rule stable_argsort_ok)
  have b: "0 < sum_list [5, 5, 3 :: nat]"
    by simp
  show ?thesis
    using top_3_ranking [where h = "[5, 5, 3]" and argsort = stable_argsort, OF a b] a b
    by (simp add: top_3_ids_def comp_def)
qed

text \<open>
  Claim C7 as stated, with ties broken by lower id first, does not hold. With the
  index-stable sort, which meets NumPy's promise, and the 24 counts 1, 2, 1, 2, ...: the
  first expert listed is 23, while expert 1, which has the same count and the lowest id
  among those, is not listed at all.
\<close>

lemma alternating_total: "0 < sum_list alternating"
  by code_simp

lemma alternating_top_3: "top_3_indices stable_argsort alternating = [23, 21, 19]"
  by code_simp

theorem top_3_ties_counterexample:
  "is_argsort_of alternating (stable_argsort alternating) \<and>
   alternating ! 1 = alternating ! 23 \<and>
   hd (top_3_ids (fst (calculate_metrics stable_argsort alternating))) = 23 \<and>
   1 \<notin> set (top_3_ids (fst (calculate_metrics stable_argsort alternating))) \<and>
   \<not> sorted_wrt (lower_id_first alternating)
        (top_3_ids (fst (calculate_metrics stable_argsort alternating)))"
proof -
  have v: "alternating ! Suc 0 = 2" "alternating ! 23 = 2" "alternating ! 21 = 2"
    by code_simp+
  show ?thesis
    by (simp add: stable_argsort_ok top_3_ids_metric [where h = alternating and argsort = stable_argsort, OF stable_argsort_ok alternating_total]
        alternating_top_3 lower_id_first_def v)
qed

section \<open>Token indices\<close>

text \<open>
  Claim C9 as stated, that \<open>token_idx\<close> increases over all the records of a request, does
  not hold when the request id is supplied to more than one call: after a call with two rows and
  a call with one row, both for request \<open>"a"\<close>, the indices on file are 0, 1, 0.
\<close>

theorem token_idx_restarts_counterexample:
  "token_idxs ''a'' (written_by (run_batches two_calls (logger_on sound_handle))) = [0, 1, 0] \<and>
   \<not> sorted (token_idxs ''a'' (written_by (run_batches two_calls (logger_on sound_handle))))"
  by code_simp

lemma token_idxs_Nil: "token_idxs r [] = []"
  by (simp add: token_idxs_def List.map_filter_simps)

lemma route_doc_fields:
  "field ''req_id'' (route_doc r i l ids ws) = Some (JStr r)"
  "token_idx_of (route_doc r i l ids ws) = Some (int i)"
  "field ''topk_ids'' (route_doc r i l ids ws) = Some (ids_doc ids)"
  "field ''topk_weights'' (route_doc r i l ids ws) = Some (weights_doc ws)"
  "type_tag (Doc (route_doc r i l ids ws)) = Some (JStr ''route'')"
  by (simp_all add: field_def route_doc_def token_idx_of_def ids_doc_def weights_doc_def
      type_tag_def)

lemma token_idxs_route_doc:
  "token_idxs r (Doc (route_doc r i l ids ws) # ls) = int i # token_idxs r ls"
  by (simp add: token_idxs_def route_doc_fields List.map_filter_simps)

lemma token_idxs_route_docs:
  "token_idxs r (map (\<lambda>i. Doc (route_doc r i l (ids i) (ws i))) idxs) = map int idxs"
  by (induction idxs) (simp_all add: token_idxs_Nil token_idxs_route_doc)

text \<open>
  Claim C9, amended. Within one call of \<open>log_routing\<close> (enabled logger, logged layer,
  batch of the documented shape, device not failing) the records appended carry the
  request id of the call and the \<open>token_idx\<close> values 0, 1, ..., n - 1 in this order: the
  index is the zero-based row of the batch and strictly increases within the call.
\<close>

theorem token_idx_within_call:
  assumes "enabled s" and "file_handle s = Some fh" and "\<forall>n. \<not> faults fh n"
    and "length idrows \<le> length wrows"
  shows "\<exists>new. written_by (snd (log_routing (logged_layer s) (tensor2 idrows) (tensor2 wrows) rid s)) =
                 written_by s @ new \<and>
               length new = length idrows \<and>
               token_idxs (fst (mint_req_id rid s)) new = map int [0..<length idrows] \<and>
               sorted_wrt (<) (token_idxs (fst (mint_req_id rid s)) new)"
proof -
  let ?new = "map (\<lambda>i. Doc (route_doc (fst (mint_req_id rid s)) i (logged_layer s) (idrows ! i) (wrows ! i)))
                [0..<length idrows]"
  have fhs: "file_handle (snd (mint_req_id rid s)) = Some fh"
    using assms(2) by (simp add: mint_req_id_def split: option.splits)
  have w: "written_by (snd (log_routing (logged_layer s) (tensor2 idrows) (tensor2 wrows) rid s)) =
           written_by s @ ?new"
    using assms(2) by (simp add: log_routing_ok [OF assms] written_by_def)
  have t: "token_idxs (fst (mint_req_id rid s)) ?new = map int [0..<length idrows]"
    by (rule token_idxs_route_docs)
  have "sorted_wrt (<) (map int [0..<length idrows])"
    by (simp add: sorted_wrt_map)
  then show ?thesis
    using w t by (intro exI [of _ ?new]) simp
qed

theorem token_idx_within_call_witness:
  "enabled (logger_on sound_handle) \<and> file_handle (logger_on sound_handle) = Some sound_handle \<and>
   (\<forall>n. \<not> faults sound_handle n) \<and> length [[2, 0], [1, 3 :: int]] \<le> length [[7 / 10, 3 / 10], [1 / 2, 1 / 2 :: rat]] \<and>
   (\<exists>new. written_by (snd (log_routing 0 (tensor2 [[2, 0], [1, 3]])
                (tensor2 [[7 / 10, 3 / 10], [1 / 2, 1 / 2]]) (Some ''a'') (logger_on sound_handle))) = new \<and>
          length new = 2 \<and> token_idxs ''a'' new = [0, 1])"
proof -
  have e: "enabled (logger_on sound_handle)" and l: "logged_layer (logger_on sound_handle) = 0"
    and f: "file_handle (logger_on sound_handle) = Some sound_handle"
    and nf: "\<forall>n. \<not> faults sound_handle n"
    by (simp_all add: logger_on_def sound_handle_def)
  have len: "length [[2, 0], [1, 3 :: int]] \<le> length [[7 / 10, 3 / 10], [1 / 2, 1 / 2 :: rat]]"
    by simp
  have w0: "written_by (logger_on sound_handle) = []"
    by (simp add: written_by_def logger_on_def sound_handle_def)
  show ?thesis
    using token_idx_within_call [OF e f nf len, of "Some ''a''"] e f nf
    by (simp add: l w0 mint_req_id_def upt_rec)
qed


section \<open>Writing a trace and reading it back\<close>

lemma log_routing_other_layer:
  "layer_idx \<noteq> logged_layer s \<Longrightarrow> log_routing layer_idx ids_t weights_t rid s = (None, s)"
  by (simp add: log_routing_def split: option.splits)

lemma mint_req_id_keeps:
  "enabled (snd (mint_req_id rid s)) = enabled s"
  "logged_layer (snd (mint_req_id rid s)) = logged_layer s"
  by (simp_all add: mint_req_id_def split: option.splits)

lemma tagged_docs_routes:
  assumes "\<forall>d\<in>set routes. type_tag (Doc d) = Some (JStr ''route'')"
  shows "tagged_docs ''route'' (map Doc routes) = routes \<and> tagged_docs ''meta'' (map Doc routes) = []"
  using assms by (induction routes) (simp_all add: tagged_docs_def)

lemma write_meta_header_ok:
  assumes "enabled s" and "file_handle s = Some fh" and "\<forall>n. \<not> faults fh n"
  shows "write_meta_header rt model_id top_k num_experts device seed s =
         (None, s\<lparr>file_handle := Some (fh\<lparr>written := written fh @
             [Doc (meta_record rt (logged_layer s) model_id top_k num_experts device seed)],
             ops := ops fh + 2\<rparr>)\<rparr>)"
  using assms by (simp add: write_meta_header_def fh_write_def fh_flush_def json_dumps_def Let_def)

lemma mint_req_id_counter:
  "request_counter (snd (mint_req_id rid s)) =
     (case rid of None \<Rightarrow> Suc (request_counter s) | Some r \<Rightarrow> request_counter s)"
  "fst (mint_req_id rid s) =
     (case rid of None \<Rightarrow> CHR ''r'' # str_nat (request_counter s) | Some r \<Rightarrow> r)"
  by (simp_all add: mint_req_id_def split: option.splits)

lemma run_batches_written:
  assumes "enabled s" and "file_handle s = Some fh" and "\<forall>n. \<not> faults fh n"
    and "\<forall>b\<in>set bs. length (fst (snd b)) = length (fst (snd (snd b)))"
  shows "written_by (run_batches bs s) =
         written fh @ map Doc (expected_routes (logged_layer s) (request_counter s) bs)"
  using assms
proof (induction bs arbitrary: s fh)
  case Nil
  then show ?case by (simp add: written_by_def)
next
  case (Cons b bs)
  obtain layer_idx ids ws rid where b: "b = (layer_idx, ids, ws, rid)"
    by (cases b) auto
  have rest: "\<forall>b\<in>set bs. length (fst (snd b)) = length (fst (snd (snd b)))"
    using Cons.prems(4) by simp
  show ?case
  proof (cases "layer_idx = logged_layer s")
    case False
    have "run_batches (b # bs) s = run_batches bs s"
      by (simp add: b log_routing_other_layer [OF False])
    then show ?thesis
      using Cons.IH [OF Cons.prems(1,2,3) rest] False by (simp add: b)
  next
    case True
    let ?r = "fst (mint_req_id rid s)"
    let ?fh1 = "fh\<lparr>written := written fh @ map Doc (batch_docs ?r (logged_layer s) ids ws),
                    ops := Suc (ops fh + length ids)\<rparr>"
    let ?s1 = "(snd (mint_req_id rid s))\<lparr>file_handle := Some ?fh1\<rparr>"
    have le: "length ids \<le> length ws"
      using Cons.prems(4) b by simp
    have lr: "log_routing layer_idx (tensor2 ids) (tensor2 ws) rid s = (None, ?s1)"
      using log_routing_ok [OF Cons.prems(1,2,3) le, of rid] True
      by (simp add: batch_docs_def comp_def)
    have e1: "enabled ?s1" and f1: "file_handle ?s1 = Some ?fh1" and nf1: "\<forall>n. \<not> faults ?fh1 n"
      and l1: "logged_layer ?s1 = logged_layer s"
      using Cons.prems(1,3) by (simp_all add: mint_req_id_keeps)
    have c1: "request_counter ?s1 =
                (case rid of None \<Rightarrow> Suc (request_counter s) | Some r \<Rightarrow> request_counter s)"
      by (simp add: mint_req_id_counter)
    have "written_by (run_batches (b # bs) s) = written_by (run_batches bs ?s1)"
      by (simp add: b lr)
    also have "\<dots> = written ?fh1 @
        map Doc (expected_routes (logged_layer ?s1) (request_counter ?s1) bs)"
      by (rule Cons.IH [OF e1 f1 nf1 rest])
    also have "\<dots> = written fh @
        map Doc (expected_routes (logged_layer s) (request_counter s) (b # bs))"
      using True by (simp add: b mint_req_id_keeps mint_req_id_counter batch_docs_def split: option.splits)
    finally show ?thesis .
  qed
qed

lemma expected_routes_tagged:
  "\<forall>d\<in>set (expected_routes l c bs). type_tag (Doc d) = Some (JStr ''route'')"
proof (induction bs arbitrary: c)
  case Nil
  then show ?case by simp
next
  case (Cons b bs)
  obtain layer_idx ids ws rid where b: "b = (layer_idx, ids, ws, rid)"
    by (cases b) auto
  show ?case
    using Cons.IH by (auto simp add: b batch_docs_def route_doc_fields split: option.splits)
qed

lemma map_nth_rows: "map (\<lambda>i. f (xs ! i)) [0..<length xs] = map f xs"
proof -
  have "map (\<lambda>i. f (xs ! i)) [0..<length xs] = map f (map (\<lambda>i. xs ! i) [0..<length xs])"
    by (simp add: comp_def)
  then show ?thesis
    by (simp only: map_nth)
qed

lemma expected_routes_fields:
  assumes "\<forall>b\<in>set bs. length (fst (snd b)) = length (fst (snd (snd b)))"
  shows "map (field ''topk_ids'') (expected_routes l c bs) =
           map (\<lambda>row. Some (ids_doc row)) (id_rows l bs) \<and>
         map (field ''topk_weights'') (expected_routes l c bs) =
           map (\<lambda>row. Some (weights_doc row)) (weight_rows l bs)"
  using assms
proof (induction bs arbitrary: c)
  case Nil
  then show ?case by (simp add: id_rows_def weight_rows_def)
next
  case (Cons b bs)
  obtain layer_idx ids ws rid where b: "b = (layer_idx, ids, ws, rid)"
    by (cases b) auto
  have len: "length ids = length ws"
    using Cons.prems b by simp
  have i: "map (field ''topk_ids'') (batch_docs r l ids ws) = map (\<lambda>row. Some (ids_doc row)) ids" for r
    using map_nth_rows [of "\<lambda>row. Some (ids_doc row)" ids]
    by (simp add: batch_docs_def route_doc_fields comp_def)
  have w: "map (field ''topk_weights'') (batch_docs r l ids ws) = map (\<lambda>row. Some (weights_doc row)) ws" for r
    using map_nth_rows [of "\<lambda>row. Some (weights_doc row)" ws]
    by (simp add: batch_docs_def route_doc_fields comp_def len)
  have ih: "map (field ''topk_ids'') (expected_routes l c' bs) =
           map (\<lambda>row. Some (ids_doc row)) (id_rows l bs) \<and>
         map (field ''topk_weights'') (expected_routes l c' bs) =
           map (\<lambda>row. Some (weights_doc row)) (weight_rows l bs)" for c'
    using Cons.IH [of c'] Cons.prems by simp
  show ?case
    using ih by (simp add: b i w id_rows_def weight_rows_def split: option.splits)
qed

text \<open>
  Claim C3. On an enabled logger with an empty file and a device that does not fail,
  writing a header with \<open>write_meta_header\<close> and then any sequence of batches of the
  documented shape with \<open>log_routing\<close> leaves a stream that \<open>read_moe_log\<close> parses to
  the header, every field holding the value passed in (the two versions, or
  \<open>"unknown"\<close>, the seed or \<open>null\<close>, the logged layer), and to exactly the expected route
  records: one per row handed in at the logged layer, in the original order, each with
  its request id, its row number, the layer, its row of ids and its row of weights
  rounded to six decimals.
\<close>

theorem round_trip:
  assumes "enabled s" and "file_handle s = Some fh" and "written fh = []" and "\<forall>n. \<not> faults fh n"
    and "\<forall>b\<in>set bs. length (fst (snd b)) = length (fst (snd (snd b)))"
  shows "read_moe_log (written_by (run_batches bs
             (snd (write_meta_header rt model_id top_k num_experts device seed s)))) =
           Inr (Some (JObj [(''type'', JStr ''meta''),
                            (''model_id'', JStr model_id),
                            (''vllm_version'',
                               JStr (case vllm_version rt of None \<Rightarrow> ''unknown'' | Some v \<Rightarrow> v)),
                            (''torch_version'',
                               JStr (case torch_version rt of None \<Rightarrow> ''unknown'' | Some v \<Rightarrow> v)),
                            (''device'', JStr device),
                            (''seed'', (case seed of None \<Rightarrow> JNull | Some i \<Rightarrow> JInt i)),
                            (''layers_logged'', JList [JInt (logged_layer s)]),
                            (''top_k'', JInt top_k),
                            (''num_experts'', JInt num_experts)]),
                expected_routes (logged_layer s) (request_counter s) bs) \<and>
         length (expected_routes (logged_layer s) (request_counter s) bs) =
           length (id_rows (logged_layer s) bs) \<and>
         map (field ''topk_ids'') (expected_routes (logged_layer s) (request_counter s) bs) =
           map (\<lambda>row. Some (ids_doc row)) (id_rows (logged_layer s) bs) \<and>
         map (field ''topk_weights'') (expected_routes (logged_layer s) (request_counter s) bs) =
           map (\<lambda>row. Some (weights_doc row)) (weight_rows (logged_layer s) bs)"
proof -
  let ?meta = "meta_record rt (logged_layer s) model_id top_k num_experts device seed"
  let ?routes = "expected_routes (logged_layer s) (request_counter s) bs"
  let ?fh1 = "fh\<lparr>written := written fh @ [Doc ?meta], ops := ops fh + 2\<rparr>"
  let ?s1 = "s\<lparr>file_handle := Some ?fh1\<rparr>"
  have s1: "snd (write_meta_header rt model_id top_k num_experts device seed s) = ?s1"
    by (simp add: write_meta_header_ok [OF assms(1,2,4)])
  have e1: "enabled ?s1" and f1: "file_handle ?s1 = Some ?fh1" and nf1: "\<forall>n. \<not> faults ?fh1 n"
    using assms(1,4) by simp_all
  have w: "written_by (run_batches bs ?s1) = Doc ?meta # map Doc ?routes"
    using run_batches_written [OF e1 f1 nf1 assms(5)] assms(3) by simp
  have tm: "type_tag (Doc ?meta) = Some (JStr ''meta'')"
    by (simp add: type_tag_def meta_record_def)
  have tr: "\<forall>d\<in>set ?routes. type_tag (Doc d) = Some (JStr ''route'')"
    by (rule expected_routes_tagged)
  have tagged: "\<forall>l\<in>set (Doc ?meta # map Doc ?routes). type_tag l \<noteq> None"
    using tr tm by auto
  have td: "tagged_docs ''route'' (Doc ?meta # map Doc ?routes) = ?routes"
    "tagged_docs ''meta'' (Doc ?meta # map Doc ?routes) = [?meta]"
    using tagged_docs_routes [OF tr] tm by (simp_all add: tagged_docs_def)
  have rd: "read_moe_log (Doc ?meta # map Doc ?routes) = Inr (Some ?meta, ?routes)"
    using read_lines_tagged [OF tagged, of None "[]"] by (simp add: read_moe_log_def td)
  have hd: "?meta = JObj [(''type'', JStr ''meta''),
                            (''model_id'', JStr model_id),
                            (''vllm_version'',
                               JStr (case vllm_version rt of None \<Rightarrow> ''unknown'' | Some v \<Rightarrow> v)),
                            (''torch_version'',
                               JStr (case torch_version rt of None \<Rightarrow> ''unknown'' | Some v \<Rightarrow> v)),
                            (''device'', JStr device),
                            (''seed'', (case seed of None \<Rightarrow> JNull | Some i \<Rightarrow> JInt i)),
                            (''layers_logged'', JList [JInt (logged_layer s)]),
                            (''top_k'', JInt top_k),
                            (''num_experts'', JInt num_experts)]"
    by (simp add: meta_record_def version_or_unknown_def json_opt_int_def)
  have f: "map (field ''topk_ids'') ?routes = map (\<lambda>row. Some (ids_doc row)) (id_rows (logged_layer s) bs)"
    "map (field ''topk_weights'') ?routes =
       map (\<lambda>row. Some (weights_doc row)) (weight_rows (logged_layer s) bs)"
    using expected_routes_fields [OF assms(5)] by simp_all
  have len: "length ?routes = length (id_rows (logged_layer s) bs)"
    using arg_cong [OF f(1), of length] by simp
  have "read_moe_log (written_by (run_batches bs
             (snd (write_meta_header rt model_id top_k num_experts device seed s)))) =
        Inr (Some ?meta, ?routes)"
    by (simp only: s1 w rd)
  then show ?thesis
    using f len by (simp add: hd [symmetric])
qed

theorem round_trip_witness:
  "enabled (logger_on sound_handle) \<and>
   file_handle (logger_on sound_handle) = Some sound_handle \<and>
   written sound_handle = [] \<and>
   (\<forall>n. \<not> faults sound_handle n) \<and>
   list_all (\<lambda>b. length (fst (snd b)) = length (fst (snd (snd b)))) three_calls \<and>
   read_moe_log (written_by (run_batches three_calls
       (snd (write_meta_header sample_runtime ''m'' 2 4 ''cuda'' None (logger_on sound_handle))))) =
     Inr (Some sample_meta,
          [route_doc ''r0'' 0 0 [2, 0] [7 / 10, 3 / 10],
           route_doc ''a'' 0 0 [1, 3] [3 / 5, 2 / 5],
           route_doc ''a'' 1 0 [0, 2] [1 / 2, 1 / 2]])"
proof -
  have e: "enabled (logger_on sound_handle)"
    and f: "file_handle (logger_on sound_handle) = Some sound_handle"
    and l: "logged_layer (logger_on sound_handle) = 0"
    and c: "request_counter (logger_on sound_handle) = 0"
    by (simp_all add: logger_on_def)
  have w: "written sound_handle = []" and nf: "\<forall>n. \<not> faults sound_handle n"
    by (simp_all add: sound_handle_def)
  have sh: "\<forall>b\<in>set three_calls. length (fst (snd b)) = length (fst (snd (snd b)))"
    by (simp add: three_calls_def)
  have ex: "expected_routes 0 0 three_calls =
          [route_doc ''r0'' 0 0 [2, 0] [7 / 10, 3 / 10],
           route_doc ''a'' 0 0 [1, 3] [3 / 5, 2 / 5],
           route_doc ''a'' 1 0 [0, 2] [1 / 2, 1 / 2]]"
    by (simp add: three_calls_def batch_docs_def str_nat.simps digit_char_def upt_rec)
  have m: "sample_meta = JObj [(''type'', JStr ''meta''),
                            (''model_id'', JStr ''m''),
                            (''vllm_version'', JStr ''unknown''),
                            (''torch_version'', JStr ''2.1.0''),
                            (''device'', JStr ''cuda''),
                            (''seed'', JNull),
                            (''layers_logged'', JList [JInt 0]),
                            (''top_k'', JInt 2),
                            (''num_experts'', JInt 4)]"
    by (simp add: sample_meta_def meta_record_def sample_runtime_def version_or_unknown_def
        json_opt_int_def)
  show ?thesis
    using round_trip [OF e f w nf sh, of sample_runtime "''m''" 2 4 "''cuda''" None] e f w nf sh
    by (simp add: l c ex m sample_runtime_def list_all_iff)
qed

end
